theory Spec2Isabelle
  imports Main
begin

section \<open>The asynchronous transport base of azure-core (\<open>_base_async.py\<close>)\<close>

text \<open>
  A method of a Python object is a function from the object's state to a result and the
  new state. A raised exception is the left summand of the result.
\<close>

subsection \<open>Exceptions\<close>

text \<open>
  The exception classes the module raises or handles. \<open>StopIteration\<close> stands for every
  instance of that class: the handler of \<open>_iterate_response_content\<close> matches by class.
  \<open>ResponseStopIteration\<close> is the module's \<open>_ResponseStopIteration(Exception)\<close>.
\<close>

datatype py_exception =
    StopIteration
  | StopAsyncIteration
  | ResponseStopIteration
  | NotImplementedError string
  | ValueError string
  | TransportError string
  | MalformedBody string
  | OtherException string

type_synonym ('a, 's) outcome = "(py_exception + 'a) \<times> 's"

text \<open>The values a context manager's exit returns, and Python's truth test on them.\<close>

datatype py_value = PyNone | PyBool bool

fun truthy :: "py_value \<Rightarrow> bool" where
  "truthy PyNone = False"
| "truthy (PyBool b) = b"

subsection \<open>\<open>_iterate_response_content\<close>\<close>

text \<open>
  \<open>next(iterator)\<close> runs the iterator's \<open>__next__\<close> on the iterator's state: it returns
  an item, raises \<open>StopIteration\<close>, or raises anything else, and leaves a new state.
  The helper is parametric in that method.
\<close>

definition iterate_response_content ::
  "('it \<Rightarrow> ('a, 'it) outcome) \<Rightarrow> 'it \<Rightarrow> ('a, 'it) outcome" where
  "iterate_response_content py_next iterator =
     (case py_next iterator of
        (Inr item, iterator') \<Rightarrow> (Inr item, iterator')
      | (Inl StopIteration, iterator') \<Rightarrow> (Inl ResponseStopIteration, iterator')
      | (Inl e, iterator') \<Rightarrow> (Inl e, iterator'))"

text \<open>The iterator of a Python list, for concrete runs.\<close>

fun list_iterator_next :: "'a list \<Rightarrow> ('a, 'a list) outcome" where
  "list_iterator_next [] = (Inl StopIteration, [])"
| "list_iterator_next (x # xs) = (Inr x, xs)"

subsection \<open>The class hierarchy\<close>

text \<open>
  The classes of the module, as the \<open>class\<close> statements give them.
  \<open>HttpResponseBase\<close> and \<open>HttpClientTransportResponse\<close> are \<open>_HttpResponseBase\<close> and
  \<open>_HttpClientTransportResponse\<close> of \<open>_base.py\<close>; \<open>AbstractAsyncContextManager\<close> is the
  standard library's. \<open>ConcreteResponse\<close> stands for a backend's subclass of
  \<open>AsyncHttpResponse\<close>.
\<close>

datatype py_class =
    AsyncHttpClientTransportResponse
  | HttpClientTransportResponse
  | AsyncHttpResponse
  | HttpResponseBase
  | AbstractAsyncContextManager
  | ConcreteResponse string

text \<open>
  The method resolution order of each class: the linearisation Python computes from
  \<open>AsyncHttpResponse(_HttpResponseBase, AbstractAsyncContextManager)\<close> and
  \<open>AsyncHttpClientTransportResponse(_HttpClientTransportResponse, AsyncHttpResponse)\<close>,
  with \<open>_HttpClientTransportResponse\<close> deriving from \<open>_HttpResponseBase\<close>. A base that
  two classes share comes after both.
\<close>

fun mro :: "py_class \<Rightarrow> py_class list" where
  "mro AsyncHttpClientTransportResponse =
     [AsyncHttpClientTransportResponse, HttpClientTransportResponse, AsyncHttpResponse,
      HttpResponseBase, AbstractAsyncContextManager]"
| "mro (ConcreteResponse n) =
     [ConcreteResponse n, AsyncHttpResponse, HttpResponseBase, AbstractAsyncContextManager]"
| "mro AsyncHttpResponse = [AsyncHttpResponse, HttpResponseBase, AbstractAsyncContextManager]"
| "mro HttpClientTransportResponse = [HttpClientTransportResponse, HttpResponseBase]"
| "mro HttpResponseBase = [HttpResponseBase]"
| "mro AbstractAsyncContextManager = [AbstractAsyncContextManager]"

text \<open>
  Modelled from the spec: what the two classes of \<open>_base.py\<close> (not among the sources)
  define. The spec's Response Envelope exposes a status code, headers, a content-type
  and the body; the docstring of \<open>AsyncHttpClientTransportResponse\<close> names \<open>body()\<close> as
  the way to load the body of a response built from an http.client response.
\<close>

fun base_attributes :: "py_class \<Rightarrow> string list" where
  "base_attributes HttpResponseBase = [''status_code'', ''headers'', ''content_type'', ''body'']"
| "base_attributes HttpClientTransportResponse = [''body'']"
| "base_attributes c = []"

text \<open>
  The attributes a class defines in its own body. \<open>AsyncHttpResponse\<close> defines
  \<open>stream_download\<close>, \<open>parts\<close> and \<open>__aexit__\<close>; the body of
  \<open>AsyncHttpClientTransportResponse\<close> is a docstring. What a backend's subclass defines
  is the parameter \<open>backend_attrs\<close>.
\<close>

fun own_attributes :: "(string \<Rightarrow> string list) \<Rightarrow> py_class \<Rightarrow> string list" where
  "own_attributes backend_attrs AsyncHttpResponse = [''stream_download'', ''parts'', ''__aexit__'']"
| "own_attributes backend_attrs AsyncHttpClientTransportResponse = []"
| "own_attributes backend_attrs AbstractAsyncContextManager = [''__aenter__'', ''__aexit__'']"
| "own_attributes backend_attrs (ConcreteResponse n) = backend_attrs n"
| "own_attributes backend_attrs HttpResponseBase = base_attributes HttpResponseBase"
| "own_attributes backend_attrs HttpClientTransportResponse =
     base_attributes HttpClientTransportResponse"

text \<open>
  Attribute lookup on an instance of class \<open>c\<close>: the first class of the resolution
  order that defines the name.
\<close>

definition resolve :: "(string \<Rightarrow> string list) \<Rightarrow> py_class \<Rightarrow> string \<Rightarrow> py_class option" where
  "resolve backend_attrs c name =
     find (\<lambda>k. name \<in> set (own_attributes backend_attrs k)) (mro c)"

definition hasattr :: "(string \<Rightarrow> string list) \<Rightarrow> py_class \<Rightarrow> string \<Rightarrow> bool" where
  "hasattr backend_attrs c name = (resolve backend_attrs c name \<noteq> None)"

subsection \<open>The response\<close>

text \<open>
  Modelled from the spec: the fields of \<open>_HttpResponseBase\<close> (\<open>_base.py\<close>, not among the
  sources). The spec's Response Envelope has a status code, a header mapping, a
  content-type, and a body that is read from the underlying connection at most once and
  buffered. \<open>raw_response\<close> is the http.client response the envelope wraps: the bytes
  not yet read from the connection, and whether the connection has been released.
\<close>

record raw_response =
  unread :: string
  closed :: bool

record response =
  response_class :: py_class
  status_code :: int
  headers :: "(string \<times> string) list"
  content_type :: "string option"
  internal_response :: raw_response
  content :: "string option"

text \<open>Python's \<open>str.startswith\<close>.\<close>

definition startswith :: "'a list \<Rightarrow> 'a list \<Rightarrow> bool" where
  "startswith s p = (take (length p) s = p)"

text \<open>
  Modelled from the spec: the state of \<open>_PartGenerator\<close>
  (\<open>_pipeline_transport_rest_shared_async.py\<close>, not among the sources). The spec's
  decomposer is a stateful iterator holding the parent response, the response type it
  builds parts with, and a parse cursor over the body; nothing is read when it is built.
\<close>

datatype parse_cursor = NotStarted | Scanning string string | Finished

record part_generator =
  pg_response :: response
  default_http_response_type :: py_class
  cursor :: parse_cursor

definition PartGenerator :: "response \<Rightarrow> py_class \<Rightarrow> part_generator" where
  "PartGenerator resp cls =
     \<lparr>pg_response = resp, default_http_response_type = cls, cursor = NotStarted\<rparr>"

text \<open>\<open>AsyncHttpResponse.stream_download\<close>, \<open>parts\<close> and \<open>__aexit__\<close>.\<close>

definition stream_download ::
  "response \<Rightarrow> 'pipeline \<Rightarrow> 'kwargs \<Rightarrow> (string list, response) outcome" where
  "stream_download self pipeline kwargs =
     (Inl (NotImplementedError ''stream_download is not implemented.''), self)"

text \<open>
  The call \<open>response.stream_download(pipeline, **kwargs)\<close> on an instance: the method
  is looked up in the instance's class. It is the one above when the lookup ends at
  \<open>AsyncHttpResponse\<close>; a definition outside this module, of a backend's subclass, is
  the parameter \<open>external\<close>.
\<close>

definition call_stream_download ::
  "(string \<Rightarrow> string list) \<Rightarrow>
     (py_class \<Rightarrow> response \<Rightarrow> 'pipeline \<Rightarrow> 'kwargs \<Rightarrow> (string list, response) outcome) \<Rightarrow>
     response \<Rightarrow> 'pipeline \<Rightarrow> 'kwargs \<Rightarrow> (string list, response) outcome" where
  "call_stream_download backend_attrs external self pipeline kwargs =
     (case resolve backend_attrs (response_class self) ''stream_download'' of
        None \<Rightarrow> (Inl (OtherException ''AttributeError''), self)
      | Some c \<Rightarrow>
          if c = AsyncHttpResponse then stream_download self pipeline kwargs
          else external c self pipeline kwargs)"

definition parts :: "response \<Rightarrow> (part_generator, response) outcome" where
  "parts self =
     (case content_type self of
        None \<Rightarrow>
          (Inl (ValueError ''You can't get parts if the response is not multipart/mixed''), self)
      | Some ct \<Rightarrow>
          if ct = [] \<or> \<not> startswith ct ''multipart/mixed''
          then (Inl (ValueError ''You can't get parts if the response is not multipart/mixed''), self)
          else (Inr (PartGenerator self AsyncHttpClientTransportResponse), self))"

text \<open>
  \<open>__aexit__\<close> receives the exception that is leaving the block, if any, and returns
  \<open>None\<close>.
\<close>

definition aexit :: "response \<Rightarrow> py_exception option \<Rightarrow> (py_value, response) outcome" where
  "aexit self exc = (Inr PyNone, self)"

subsection \<open>The transport's default \<open>sleep\<close>\<close>

text \<open>
  \<open>asyncio.sleep\<close> is the runtime's: a parameter, acting on the runtime's state and
  returning a value or raising. \<open>sleep\<close> awaits it and returns \<open>None\<close>.
\<close>

definition sleep ::
  "('d \<Rightarrow> 'rt \<Rightarrow> ('v, 'rt) outcome) \<Rightarrow> 'self \<Rightarrow> 'd \<Rightarrow> 'rt \<Rightarrow> (unit, 'rt) outcome" where
  "sleep asyncio_sleep self duration rt =
     (case asyncio_sleep duration rt of
        (Inl e, rt') \<Rightarrow> (Inl e, rt')
      | (Inr v, rt') \<Rightarrow> (Inr (), rt'))"

text \<open>A runtime that records the delays it is asked for, for concrete runs.\<close>

definition recording_sleep :: "'d \<Rightarrow> 'd list \<Rightarrow> (unit, 'd list) outcome" where
  "recording_sleep d log = (Inr (), log @ [d])"

subsection \<open>The transport and its scope\<close>

text \<open>
  \<open>AsyncHttpTransport\<close> declares \<open>send\<close>, \<open>open\<close> and \<open>close\<close> abstract: a concrete
  transport supplies them, as functions on its state. Of the context manager protocol
  the class defines nothing itself. It inherits \<open>__aenter__\<close> from
  \<open>AbstractAsyncContextManager\<close>, which returns the object, unless the concrete
  transport overrides it (\<open>aenter_method\<close> is then \<open>Some\<close>); \<open>__aexit__\<close> is abstract
  there, so every concrete transport supplies one.
\<close>

record ('s, 'req, 'resp) transport =
  send_method :: "'req \<Rightarrow> 's \<Rightarrow> ('resp, 's) outcome"
  open_method :: "'s \<Rightarrow> (unit, 's) outcome"
  close_method :: "'s \<Rightarrow> (unit, 's) outcome"
  aenter_method :: "('s \<Rightarrow> (unit, 's) outcome) option"
  aexit_method :: "py_exception option \<Rightarrow> 's \<Rightarrow> (py_value, 's) outcome"

definition aenter :: "('s, 'req, 'resp) transport \<Rightarrow> 's \<Rightarrow> (unit, 's) outcome" where
  "aenter t s = (case aenter_method t of None \<Rightarrow> (Inr (), s) | Some f \<Rightarrow> f s)"

text \<open>
  The statement \<open>async with manager: block\<close>, for a manager with the given \<open>__aenter__\<close>
  and \<open>__aexit__\<close>: enter; run the block; on an exception call \<open>__aexit__\<close> with it and
  re-raise unless the exit returned a true value; otherwise call \<open>__aexit__\<close> with no
  exception. \<open>None\<close> is the result of a block whose exception was suppressed.
\<close>

definition async_with ::
  "('s \<Rightarrow> (unit, 's) outcome) \<Rightarrow> (py_exception option \<Rightarrow> 's \<Rightarrow> (py_value, 's) outcome) \<Rightarrow>
     ('s \<Rightarrow> ('a, 's) outcome) \<Rightarrow> 's \<Rightarrow> ('a option, 's) outcome" where
  "async_with enter exit block s =
     (case enter s of
        (Inl e, s1) \<Rightarrow> (Inl e, s1)
      | (Inr u, s1) \<Rightarrow>
          (case block s1 of
             (Inl e, s2) \<Rightarrow>
               (case exit (Some e) s2 of
                  (Inl e', s3) \<Rightarrow> (Inl e', s3)
                | (Inr v, s3) \<Rightarrow> if truthy v then (Inr None, s3) else (Inl e, s3))
           | (Inr a, s2) \<Rightarrow>
               (case exit None s2 of
                  (Inl e', s3) \<Rightarrow> (Inl e', s3)
                | (Inr v, s3) \<Rightarrow> (Inr (Some a), s3))))"

text \<open>The scope of a transport, and the scope of a response.\<close>

definition transport_scope ::
  "('s, 'req, 'resp) transport \<Rightarrow> ('s \<Rightarrow> ('a, 's) outcome) \<Rightarrow> 's \<Rightarrow> ('a option, 's) outcome" where
  "transport_scope t block s = async_with (aenter t) (aexit_method t) block s"

definition response_scope ::
  "(response \<Rightarrow> ('a, response) outcome) \<Rightarrow> response \<Rightarrow> ('a option, response) outcome" where
  "response_scope block self =
     async_with (\<lambda>self. (Inr (), self)) (\<lambda>exc self. aexit self exc) block self"

text \<open>
  The enter and exit of a concrete transport that acquires on enter and releases on exit:
  \<open>await self.open(); return self\<close> and \<open>await self.close()\<close>.
\<close>

definition exit_by_close ::
  "('s \<Rightarrow> (unit, 's) outcome) \<Rightarrow> py_exception option \<Rightarrow> 's \<Rightarrow> (py_value, 's) outcome" where
  "exit_by_close cl exc s =
     (case cl s of (Inl e, s') \<Rightarrow> (Inl e, s') | (Inr u, s') \<Rightarrow> (Inr PyNone, s'))"

definition scoped_by_open_close :: "('s, 'req, 'resp) transport \<Rightarrow> bool" where
  "scoped_by_open_close t =
     (aenter_method t = Some (open_method t) \<and> aexit_method t = exit_by_close (close_method t))"

text \<open>
  Two transports over a log of the calls made, for concrete runs. Their \<open>send\<close> raises a
  transport error. \<open>logging_transport\<close> opens on enter and closes on exit;
  \<open>bare_transport\<close> implements the abstract methods and closes on exit, and keeps the
  inherited \<open>__aenter__\<close>.
\<close>

definition log_call :: "string \<Rightarrow> string list \<Rightarrow> (unit, string list) outcome" where
  "log_call name log = (Inr (), log @ [name])"

definition failing_send :: "'req \<Rightarrow> string list \<Rightarrow> ('resp, string list) outcome" where
  "failing_send request log = (Inl (TransportError ''connection refused''), log @ [''send''])"

definition logging_transport :: "(string list, 'req, 'resp) transport" where
  "logging_transport =
     \<lparr>send_method = failing_send,
      open_method = log_call ''open'',
      close_method = log_call ''close'',
      aenter_method = Some (log_call ''open''),
      aexit_method = exit_by_close (log_call ''close'')\<rparr>"

definition bare_transport :: "(string list, 'req, 'resp) transport" where
  "bare_transport =
     \<lparr>send_method = failing_send,
      open_method = log_call ''open'',
      close_method = log_call ''close'',
      aenter_method = None,
      aexit_method = exit_by_close (log_call ''close'')\<rparr>"

subsection \<open>The lifecycle of a transport's resource\<close>

text \<open>
  Modelled from the spec: \<open>close\<close> of a concrete transport (abstract in
  \<open>AsyncHttpTransport\<close>; the backends that implement it are not among the sources). The
  spec gives a transport the states unopened, open and closed, with \<open>open\<close> leading from
  unopened to open and \<open>close\<close> from open to closed; \<open>close\<close> releases the resource the
  transport owns and is a no-op on a resource that was supplied from outside.
\<close>

datatype lifecycle = Unopened | Opened | Closed

record session_transport =
  lifecycle_state :: lifecycle
  session :: "nat option"
  externally_owned :: bool

definition transport_close :: "session_transport \<Rightarrow> (unit, session_transport) outcome" where
  "transport_close t =
     (if externally_owned t then (Inr (), t)
      else (case lifecycle_state t of
              Opened \<Rightarrow> (Inr (), t\<lparr>lifecycle_state := Closed, session := None\<rparr>)
            | Unopened \<Rightarrow> (Inr (), t)
            | Closed \<Rightarrow> (Inr (), t)))"

section \<open>The body and the multipart decomposer\<close>

text \<open>
  Modelled from the spec: \<open>body\<close> of \<open>_HttpResponseBase\<close> (\<open>_base.py\<close>, not among the
  sources). The body is read from the underlying connection at most once; later reads
  return the buffered copy.
\<close>

definition body :: "response \<Rightarrow> string \<times> response" where
  "body self =
     (case content self of
        Some c \<Rightarrow> (c, self)
      | None \<Rightarrow>
          (unread (internal_response self),
           self\<lparr>content := Some (unread (internal_response self)),
                internal_response := (internal_response self)\<lparr>unread := []\<rparr>\<rparr>))"

subsection \<open>Searching bytes\<close>

definition CRLF :: string where
  "CRLF = [CHR 0x0D, CHR 0x0A]"

text \<open>
  \<open>split_first p s\<close> cuts \<open>s\<close> at the first occurrence of \<open>p\<close>: the bytes before it and
  the bytes after it. \<open>contains p s\<close> is Python's \<open>p in s\<close>.
\<close>

fun split_first :: "'a list \<Rightarrow> 'a list \<Rightarrow> ('a list \<times> 'a list) option" where
  "split_first p [] = (if p = [] then Some ([], []) else None)"
| "split_first p (x # xs) =
     (if startswith (x # xs) p then Some ([], drop (length p) (x # xs))
      else (case split_first p xs of
              None \<Rightarrow> None
            | Some (before, after) \<Rightarrow> Some (x # before, after)))"

definition contains :: "'a list \<Rightarrow> 'a list \<Rightarrow> bool" where
  "contains p s = (split_first p s \<noteq> None)"

lemma startswith_Nil [simp]: "startswith s []"
  by (simp add: startswith_def)

lemma startswith_Cons [simp]:
  "startswith (x # s) (y # p) = (x = y \<and> startswith s p)"
  by (auto simp: startswith_def)

lemma startswith_Nil_Cons [simp]: "\<not> startswith [] (y # p)"
  by (simp add: startswith_def)

lemma startswith_append: "startswith s p \<Longrightarrow> s = p @ drop (length p) s"
  by (metis append_take_drop_id startswith_def)

lemma startswith_length: "startswith s p \<Longrightarrow> length p \<le> length s"
  by (metis startswith_def length_take min.cobounded1)

lemma split_first_append: "split_first p s = Some (a, b) \<Longrightarrow> s = a @ p @ b"
proof (induction s arbitrary: a)
  case Nil
  then show ?case by (simp split: if_splits)
next
  case (Cons x xs)
  show ?case
  proof (cases "startswith (x # xs) p")
    case True
    with Cons.prems show ?thesis using startswith_append [OF True] by simp
  next
    case False
    with Cons.prems obtain a' where "split_first p xs = Some (a', b)" "a = x # a'"
      by (auto split: option.splits)
    with Cons.IH show ?thesis by simp
  qed
qed

lemma split_first_shorter:
  "split_first p s = Some (a, b) \<Longrightarrow> length b + length p \<le> length s"
  by (drule split_first_append) simp

subsection \<open>The headers of a segment\<close>

definition strip_spaces :: "string \<Rightarrow> string" where
  "strip_spaces v = dropWhile (\<lambda>c. c = CHR '' '') v"

text \<open>
  Modelled from the spec: the header parser of the decomposer (the shared parsing
  utility is not among the sources). The headers of a segment are lines \<open>name: value\<close>,
  terminated by an empty line; what follows the empty line is the payload.
\<close>

function parse_headers :: "string \<Rightarrow> ((string \<times> string) list \<times> string) option" where
  "parse_headers s =
     (if startswith s CRLF then Some ([], drop 2 s)
      else (case split_first CRLF s of
              None \<Rightarrow> None
            | Some (line, rest) \<Rightarrow>
                (case split_first '':'' line of
                   None \<Rightarrow> None
                 | Some (name, v) \<Rightarrow>
                     (case parse_headers rest of
                        None \<Rightarrow> None
                      | Some (hs, payload) \<Rightarrow> Some ((name, strip_spaces v) # hs, payload)))))"
  by pat_completeness auto
termination
proof (relation "measure length")
  show "wf (measure length)" by simp
next
  fix s :: string and found line rest
  assume "split_first CRLF s = Some found" "(line, rest) = found"
  then have "split_first CRLF s = Some (line, rest)" by simp
  from split_first_shorter [OF this] show "(rest, s) \<in> measure length"
    by (simp add: CRLF_def)
qed

declare parse_headers.simps [simp del]

text \<open>
  Modelled from the spec: the header mapping of a response has case-insensitive keys.
\<close>

definition ascii_lower :: "char \<Rightarrow> char" where
  "ascii_lower c =
     (let n = of_char c :: nat in if 65 \<le> n \<and> n \<le> 90 then char_of (n + 32) else c)"

fun header_get :: "(string \<times> string) list \<Rightarrow> string \<Rightarrow> string option" where
  "header_get [] name = None"
| "header_get ((k, v) # hs) name =
     (if map ascii_lower k = map ascii_lower name then Some v else header_get hs name)"

subsection \<open>The decomposer\<close>

text \<open>
  Modelled from the spec: reading the boundary from the content-type header,
  \<open>multipart/mixed; boundary=<token>\<close>.
\<close>

definition boundary_of :: "string \<Rightarrow> string option" where
  "boundary_of ct =
     (case split_first ''boundary='' ct of
        None \<Rightarrow> None
      | Some (before, after) \<Rightarrow> Some (takeWhile (\<lambda>c. c \<noteq> CHR '';'') after))"

text \<open>
  Modelled from the spec: the Part built for a segment. It is a response of the type the
  generator was given, with the segment's headers, and wraps the segment's payload as a
  body not yet read, as the docstring of \<open>AsyncHttpClientTransportResponse\<close> has it. The
  spec gives a Part no status of its own; it takes the parent's.
\<close>

definition make_part :: "py_class \<Rightarrow> response \<Rightarrow> (string \<times> string) list \<Rightarrow> string \<Rightarrow> response" where
  "make_part cls parent hs payload =
     \<lparr>response_class = cls,
      status_code = status_code parent,
      headers = hs,
      content_type = header_get hs ''content-type'',
      internal_response = \<lparr>unread = payload, closed = False\<rparr>,
      content = None\<rparr>"

text \<open>
  Modelled from the spec: the boundary marker between segments, a line \<open>--<token>\<close>.
\<close>

definition delimiter :: "string \<Rightarrow> string" where
  "delimiter b = CRLF @ ''--'' @ b"

text \<open>
  Modelled from the spec: the first step of the decomposer. It reads the boundary from
  the content-type and the body from the parent, and places the cursor after the first
  boundary marker. A body that does not begin with the marker is malformed.
\<close>

definition start_scan :: "part_generator \<Rightarrow> py_exception + part_generator" where
  "start_scan g =
     (case content_type (pg_response g) of
        None \<Rightarrow> Inl (MalformedBody ''no content-type'')
      | Some ct \<Rightarrow>
          (case boundary_of ct of
             None \<Rightarrow> Inl (MalformedBody ''no boundary parameter'')
           | Some b \<Rightarrow>
               (case body (pg_response g) of
                  (bytes, resp) \<Rightarrow>
                    if startswith bytes (''--'' @ b)
                    then Inr (g\<lparr>pg_response := resp,
                                cursor := Scanning (delimiter b) (drop (2 + length b) bytes)\<rparr>)
                    else Inl (MalformedBody ''the body does not begin with the boundary''))))"

text \<open>
  Modelled from the spec: one step of the decomposer at a cursor that stands after a
  boundary marker. \<open>--\<close> there is the terminator \<open>--<token>--\<close>: the sequence is complete.
  Otherwise the segment runs to the next marker; its headers are parsed, and a Part is
  built from its payload. Of the two policies the spec leaves open for a body that ends
  without the final marker, this model takes the malformed-body error.
\<close>

definition scan_step :: "part_generator \<Rightarrow> string \<Rightarrow> string \<Rightarrow> (response, part_generator) outcome" where
  "scan_step g d rest =
     (if startswith rest ''--'' then (Inl StopAsyncIteration, g\<lparr>cursor := Finished\<rparr>)
      else if startswith rest CRLF then
        (case split_first d (drop 2 rest) of
           None \<Rightarrow> (Inl (MalformedBody ''no closing boundary''), g)
         | Some (segment, rest') \<Rightarrow>
             (case parse_headers segment of
                None \<Rightarrow> (Inl (MalformedBody ''headers not terminated''), g)
              | Some (hs, payload) \<Rightarrow>
                  (Inr (make_part (default_http_response_type g) (pg_response g) hs payload),
                   g\<lparr>cursor := Scanning d rest'\<rparr>)))
      else (Inl (MalformedBody ''boundary line not terminated''), g))"

text \<open>
  Modelled from the spec: \<open>__anext__\<close> of \<open>_PartGenerator\<close>, the next Part of the lazy
  sequence or the end of the iteration. The body is first read here, never before.
\<close>

definition anext :: "part_generator \<Rightarrow> (response, part_generator) outcome" where
  "anext g =
     (case cursor g of
        Finished \<Rightarrow> (Inl StopAsyncIteration, g)
      | Scanning d rest \<Rightarrow> scan_step g d rest
      | NotStarted \<Rightarrow>
          (case start_scan g of
             Inl e \<Rightarrow> (Inl e, g)
           | Inr g' \<Rightarrow>
               (case cursor g' of
                  Scanning d rest \<Rightarrow> scan_step g' d rest
                | _ \<Rightarrow> (Inl StopAsyncIteration, g'))))"

text \<open>The bytes a generator has still to scan: what bounds the iteration.\<close>

fun remaining :: "part_generator \<Rightarrow> nat" where
  "remaining g =
     (case cursor g of
        NotStarted \<Rightarrow> Suc (length (fst (body (pg_response g))))
      | Scanning d rest \<Rightarrow> length rest
      | Finished \<Rightarrow> 0)"

lemma scan_step_remaining:
  assumes "scan_step g d rest = (Inr p, g')"
  shows "remaining g' < length rest"
proof -
  from assms have crlf: "startswith rest CRLF"
    by (auto simp: scan_step_def split: if_splits)
  from assms obtain segment rest' where
    sp: "split_first d (drop 2 rest) = Some (segment, rest')" and g': "cursor g' = Scanning d rest'"
    by (auto simp: scan_step_def split: if_splits option.splits prod.splits)
  from startswith_length [OF crlf] have "2 \<le> length rest" by (simp add: CRLF_def)
  moreover from split_first_shorter [OF sp] have "length rest' \<le> length rest - 2" by simp
  ultimately show ?thesis using g' by simp
qed

lemma start_scan_remaining:
  "start_scan g = Inr g' \<Longrightarrow> \<exists>d rest. cursor g' = Scanning d rest \<and>
     length rest \<le> length (fst (body (pg_response g)))"
  by (auto simp: start_scan_def split: option.splits prod.splits if_splits)

lemma anext_remaining: "anext g = (Inr p, g') \<Longrightarrow> remaining g' < remaining g"
  by (auto simp: anext_def split: parse_cursor.splits sum.splits
      dest!: scan_step_remaining start_scan_remaining)

text \<open>
  The loop \<open>async for part in generator\<close>, collecting the parts: it runs \<open>__anext__\<close>
  until the end of the iteration, and an exception of \<open>__anext__\<close> ends it.
\<close>

function collect_parts :: "part_generator \<Rightarrow> py_exception + response list" where
  "collect_parts g =
     (case anext g of
        (Inl StopAsyncIteration, g') \<Rightarrow> Inr []
      | (Inl e, g') \<Rightarrow> Inl e
      | (Inr p, g') \<Rightarrow>
          (case collect_parts g' of Inl e \<Rightarrow> Inl e | Inr ps \<Rightarrow> Inr (p # ps)))"
  by pat_completeness auto
termination
proof (relation "measure remaining")
  show "wf (measure remaining)" by simp
next
  fix g r g' p
  assume "(r, g') = anext g" "r = Inr p"
  then have "anext g = (Inr p, g')" by simp
  from anext_remaining [OF this] show "(g', g) \<in> measure remaining" by simp
qed

declare collect_parts.simps [simp del]

subsection \<open>Well-formed multipart bodies\<close>

text \<open>
  Modelled from the spec: the multipart format. A body of segments is \<open>--<token>\<close>, then
  for each segment a line end, its header lines, an empty line, its payload and the
  marker \<open>--<token>\<close> on a line of its own, and at the end \<open>--\<close>.
\<close>

record segment =
  seg_headers :: "(string \<times> string) list"
  seg_payload :: string

fun header_line :: "string \<times> string \<Rightarrow> string" where
  "header_line (name, v) = name @ '': '' @ v @ CRLF"

definition segment_text :: "segment \<Rightarrow> string" where
  "segment_text seg = concat (map header_line (seg_headers seg)) @ CRLF @ seg_payload seg"

fun render_segments :: "string \<Rightarrow> segment list \<Rightarrow> string" where
  "render_segments b [] = ''--''"
| "render_segments b (seg # segs) =
     CRLF @ segment_text seg @ delimiter b @ render_segments b segs"

definition render :: "string \<Rightarrow> segment list \<Rightarrow> string" where
  "render b segs = ''--'' @ b @ render_segments b segs"

text \<open>
  A header is well formed when its name holds no colon, neither name nor value holds a
  carriage return, and the value does not begin with a space. A segment is well formed
  when its headers are and the boundary marker does not occur in its text. A body is
  well formed when the boundary token holds no carriage return and no semicolon and
  every segment is well formed.
\<close>

fun well_formed_header :: "string \<times> string \<Rightarrow> bool" where
  "well_formed_header (name, v) =
     (CHR 0x0D \<notin> set name \<and> CHR '':'' \<notin> set name \<and> CHR 0x0D \<notin> set v
      \<and> \<not> startswith v '' '')"

definition well_formed_segment :: "string \<Rightarrow> segment \<Rightarrow> bool" where
  "well_formed_segment b seg =
     (list_all well_formed_header (seg_headers seg)
      \<and> \<not> contains (delimiter b) (segment_text seg))"

definition well_formed :: "string \<Rightarrow> segment list \<Rightarrow> bool" where
  "well_formed b segs =
     (CHR 0x0D \<notin> set b \<and> CHR '';'' \<notin> set b \<and> list_all (well_formed_segment b) segs)"

definition part_of_segment :: "py_class \<Rightarrow> response \<Rightarrow> segment \<Rightarrow> response" where
  "part_of_segment cls parent seg = make_part cls parent (seg_headers seg) (seg_payload seg)"

subsection \<open>Concrete responses\<close>

text \<open>
  The spec's scenarios: the \<open>GET /items\<close> response, and a multipart response with
  boundary \<open>b\<close> whose body has not been read; the segment of content-type
  \<open>application/json\<close> and payload \<open>{"a":1}\<close>.
\<close>

definition json_response :: response where
  "json_response =
     \<lparr>response_class = ConcreteResponse ''AioHttpTransportResponse'',
      status_code = 200,
      headers = [(''Content-Type'', ''application/json'')],
      content_type = Some ''application/json'',
      internal_response = \<lparr>unread = ''{\"value\":[]}'', closed = False\<rparr>,
      content = None\<rparr>"

definition multipart_response :: "string \<Rightarrow> string \<Rightarrow> response" where
  "multipart_response b bytes =
     \<lparr>response_class = ConcreteResponse ''AioHttpTransportResponse'',
      status_code = 200,
      headers = [(''Content-Type'', ''multipart/mixed; boundary='' @ b)],
      content_type = Some (''multipart/mixed; boundary='' @ b),
      internal_response = \<lparr>unread = bytes, closed = False\<rparr>,
      content = None\<rparr>"

definition json_segment :: segment where
  "json_segment =
     \<lparr>seg_headers = [(''Content-Type'', ''application/json'')], seg_payload = ''{\"a\":1}''\<rparr>"

text \<open>
  A backend whose response class implements \<open>stream_download\<close>, yielding the body as one
  chunk.
\<close>

fun aio_attrs :: "string \<Rightarrow> string list" where
  "aio_attrs n = [''stream_download'']"

definition aio_stream_download ::
  "py_class \<Rightarrow> response \<Rightarrow> unit \<Rightarrow> unit \<Rightarrow> (string list, response) outcome" where
  "aio_stream_download c self pipeline kwargs = (Inr [fst (body self)], snd (body self))"

section \<open>Properties\<close>

subsection \<open>The first occurrence of a pattern\<close>

lemma split_first_hd:
  "c \<notin> set x \<Longrightarrow> split_first (c # p) (x @ c # p @ r) = Some (x, r)"
  by (induction x) (auto simp: startswith_def)

lemma startswith_append_cases:
  "startswith (x @ y) q \<Longrightarrow> startswith x q \<or> (\<exists>q2. q2 \<noteq> [] \<and> q = x @ q2 \<and> startswith y q2)"
proof (induction x arbitrary: q)
  case Nil
  then show ?case by (cases q) auto
next
  case (Cons a x)
  then show ?case by (cases q) auto
qed

text \<open>
  A pattern whose first byte does not recur in it cannot begin inside \<open>x\<close> and end in
  the copy of the pattern that follows \<open>x\<close>.
\<close>

lemma no_overlap:
  assumes "startswith (x @ (c # p) @ r) (c # p)" "x \<noteq> []" "c \<notin> set p"
  shows "startswith x (c # p)"
proof -
  from startswith_append_cases [OF assms(1)]
  consider "startswith x (c # p)"
    | q2 where "q2 \<noteq> []" "c # p = x @ q2" "startswith ((c # p) @ r) q2"
    by blast
  then show ?thesis
  proof cases
    case 1
    then show ?thesis .
  next
    case 2
    from \<open>x \<noteq> []\<close> obtain a x' where x: "x = a # x'" by (cases x) auto
    from \<open>q2 \<noteq> []\<close> obtain d q2' where q2: "q2 = d # q2'" by (cases q2) auto
    from 2(3) q2 have "d = c" by simp
    with 2(2) x q2 have "p = x' @ c # q2'" by simp
    with \<open>c \<notin> set p\<close> show ?thesis by simp
  qed
qed

lemma contains_Cons:
  "contains p (x # xs) = (startswith (x # xs) p \<or> contains p xs)"
  by (auto simp: contains_def split: option.splits)

lemma split_first_no_overlap:
  "c \<notin> set p \<Longrightarrow> \<not> contains (c # p) x \<Longrightarrow> split_first (c # p) (x @ (c # p) @ r) = Some (x, r)"
proof (induction x)
  case Nil
  then show ?case by (simp add: startswith_def)
next
  case (Cons a x)
  from Cons.prems(2) have ns: "\<not> startswith (a # x) (c # p)" and nc: "\<not> contains (c # p) x"
    by (simp_all add: contains_Cons)
  have "\<not> startswith ((a # x) @ (c # p) @ r) (c # p)"
    using no_overlap [of "a # x" c p r] ns Cons.prems(1) by blast
  moreover have "split_first (c # p) (x @ (c # p) @ r) = Some (x, r)"
    using Cons.IH [OF Cons.prems(1) nc] .
  ultimately show ?case by simp
qed

subsection \<open>Parsing what was rendered\<close>

lemma not_startswith_CR:
  "CHR 0x0D \<notin> set name \<Longrightarrow> \<not> startswith (name @ CHR '':'' # t) (CHR 0x0D # q)"
  by (cases name) auto

lemma strip_spaces_value: "\<not> startswith v '' '' \<Longrightarrow> strip_spaces (CHR '' '' # v) = v"
  by (cases v) (auto simp: strip_spaces_def)

lemma parse_headers_blank: "parse_headers (CRLF @ payload) = Some ([], payload)"
  by (subst parse_headers.simps) (simp add: CRLF_def)

lemma parse_headers_line:
  assumes "well_formed_header (name, v)"
  shows "parse_headers (header_line (name, v) @ rest) =
           (case parse_headers rest of
              None \<Rightarrow> None
            | Some (hs, payload) \<Rightarrow> Some ((name, v) # hs, payload))"
proof -
  let ?line = "name @ '': '' @ v"
  from assms have cr: "CHR 0x0D \<notin> set ?line" by simp
  have shape: "header_line (name, v) @ rest = ?line @ CHR 0x0D # [CHR 0x0A] @ rest"
    by (simp add: CRLF_def)
  have "\<not> startswith (header_line (name, v) @ rest) CRLF"
    using assms not_startswith_CR [of name] by (simp add: CRLF_def)
  moreover have "split_first CRLF (header_line (name, v) @ rest) = Some (?line, rest)"
    unfolding shape CRLF_def using cr by (rule split_first_hd)
  moreover have "split_first '':'' ?line = Some (name, CHR '' '' # v)"
    using split_first_hd [of "CHR '':''" name "[]" "CHR '' '' # v"] assms by simp
  moreover have "strip_spaces (CHR '' '' # v) = v"
    using assms by (simp add: strip_spaces_value)
  ultimately show ?thesis
    by (subst parse_headers.simps) (simp split: option.splits)
qed

lemma parse_headers_render:
  "list_all well_formed_header hs \<Longrightarrow>
     parse_headers (concat (map header_line hs) @ CRLF @ payload) = Some (hs, payload)"
proof (induction hs)
  case Nil
  then show ?case by (simp add: parse_headers_blank)
next
  case (Cons h hs)
  obtain name v where h: "h = (name, v)" by (cases h)
  from Cons.prems h have wf: "well_formed_header (name, v)" and rest: "list_all well_formed_header hs"
    by simp_all
  have "parse_headers (header_line (name, v) @ concat (map header_line hs) @ CRLF @ payload)
          = Some ((name, v) # hs, payload)"
    using parse_headers_line [OF wf] Cons.IH [OF rest] by simp
  then show ?case using h by simp
qed

lemma make_part_status:
  "status_code p1 = status_code p2 \<Longrightarrow> make_part cls p1 hs payload = make_part cls p2 hs payload"
  by (simp add: make_part_def)

lemma scan_step_segment:
  assumes "CHR 0x0D \<notin> set b" and "well_formed_segment b seg"
  shows "scan_step g (delimiter b) (CRLF @ segment_text seg @ delimiter b @ rest')
           = (Inr (part_of_segment (default_http_response_type g) (pg_response g) seg),
              g\<lparr>cursor := Scanning (delimiter b) rest'\<rparr>)"
proof -
  have d: "delimiter b = CHR 0x0D # (CHR 0x0A # ''--'' @ b)"
    by (simp add: delimiter_def CRLF_def)
  from assms(1) have fresh: "CHR 0x0D \<notin> set (CHR 0x0A # ''--'' @ b)" by simp
  from assms(2) have absent: "\<not> contains (CHR 0x0D # (CHR 0x0A # ''--'' @ b)) (segment_text seg)"
    by (simp add: well_formed_segment_def d)
  have "split_first (CHR 0x0D # (CHR 0x0A # ''--'' @ b))
          (segment_text seg @ (CHR 0x0D # (CHR 0x0A # ''--'' @ b)) @ rest')
        = Some (segment_text seg, rest')"
    using fresh absent by (rule split_first_no_overlap)
  then have "split_first (delimiter b) (segment_text seg @ delimiter b @ rest')
        = Some (segment_text seg, rest')"
    by (simp only: d)
  moreover have "parse_headers (segment_text seg) = Some (seg_headers seg, seg_payload seg)"
    using assms(2) by (simp add: well_formed_segment_def segment_text_def parse_headers_render)
  moreover have "drop 2 (CRLF @ segment_text seg @ delimiter b @ rest')
        = segment_text seg @ delimiter b @ rest'"
    by (simp add: CRLF_def)
  moreover have "\<not> startswith (CRLF @ segment_text seg @ delimiter b @ rest') ''--''"
    by (simp add: CRLF_def)
  moreover have "startswith (CRLF @ segment_text seg @ delimiter b @ rest') CRLF"
    by (simp add: CRLF_def)
  ultimately show ?thesis
    by (simp add: scan_step_def part_of_segment_def)
qed

lemma collect_parts_Scanning:
  "collect_parts \<lparr>pg_response = r, default_http_response_type = cls, cursor = Scanning d rest\<rparr>
     = (case scan_step \<lparr>pg_response = r, default_http_response_type = cls, cursor = Scanning d rest\<rparr> d rest of
          (Inl StopAsyncIteration, g') \<Rightarrow> Inr []
        | (Inl e, g') \<Rightarrow> Inl e
        | (Inr p, g') \<Rightarrow> (case collect_parts g' of Inl e \<Rightarrow> Inl e | Inr ps \<Rightarrow> Inr (p # ps)))"
  by (subst collect_parts.simps) (simp add: anext_def)

lemma collect_parts_rendered:
  assumes "CHR 0x0D \<notin> set b"
  shows "list_all (well_formed_segment b) segs \<Longrightarrow>
     collect_parts
       \<lparr>pg_response = r, default_http_response_type = cls,
        cursor = Scanning (delimiter b) (render_segments b segs)\<rparr>
     = Inr (map (part_of_segment cls r) segs)"
proof (induction segs)
  case Nil
  show ?case
    by (subst collect_parts_Scanning) (simp add: scan_step_def)
next
  case (Cons seg segs)
  from Cons.prems have wf: "well_formed_segment b seg" and rest: "list_all (well_formed_segment b) segs"
    by simp_all
  show ?case
    by (subst collect_parts_Scanning)
       (simp add: scan_step_segment [OF assms wf] Cons.IH [OF rest])
qed

lemma boundary_of_content_type:
  assumes "CHR '';'' \<notin> set b"
  shows "boundary_of (''multipart/mixed; boundary='' @ b) = Some b"
proof -
  have "split_first ''boundary='' (''multipart/mixed; '' @ CHR ''b'' # ''oundary='' @ b)
          = Some (''multipart/mixed; '', b)"
    by (rule split_first_hd) simp
  moreover have "takeWhile (\<lambda>c. c \<noteq> CHR '';'') b = b"
    using assms by (auto simp: takeWhile_eq_all_conv)
  ultimately show ?thesis by (simp add: boundary_of_def)
qed

lemma body_status: "status_code (snd (body r)) = status_code r"
  by (simp add: body_def split: option.splits)

lemma start_scan_rendered:
  assumes "CHR '';'' \<notin> set b"
    and "content_type r = Some (''multipart/mixed; boundary='' @ b)"
    and "fst (body r) = render b segs"
  shows "start_scan (PartGenerator r cls) =
     Inr \<lparr>pg_response = snd (body r), default_http_response_type = cls,
          cursor = Scanning (delimiter b) (render_segments b segs)\<rparr>"
proof -
  obtain bytes resp where bd: "body r = (bytes, resp)" by (cases "body r")
  with assms(3) have bytes: "bytes = render b segs" by simp
  have "startswith (render b segs) (''--'' @ b)"
    by (simp add: render_def startswith_def)
  moreover have "drop (2 + length b) (render b segs) = render_segments b segs"
    by (simp add: render_def)
  ultimately show ?thesis
    using bd bytes assms(2) boundary_of_content_type [OF assms(1)]
    by (simp add: start_scan_def PartGenerator_def)
qed

lemma collect_parts_NotStarted:
  assumes "start_scan g = Inr \<lparr>pg_response = r', default_http_response_type = cls, cursor = Scanning d rest\<rparr>"
    and "cursor g = NotStarted"
  shows "collect_parts g =
     collect_parts \<lparr>pg_response = r', default_http_response_type = cls, cursor = Scanning d rest\<rparr>"
  using assms
  by (subst collect_parts.simps, subst (2) collect_parts.simps) (simp add: anext_def)

lemma collect_parts_well_formed:
  assumes "well_formed b segs"
    and "content_type r = Some (''multipart/mixed; boundary='' @ b)"
    and "fst (body r) = render b segs"
  shows "collect_parts (PartGenerator r cls) = Inr (map (part_of_segment cls r) segs)"
proof -
  from assms(1) have cr: "CHR 0x0D \<notin> set b" and semi: "CHR '';'' \<notin> set b"
    and wf: "list_all (well_formed_segment b) segs"
    by (simp_all add: well_formed_def)
  have same: "part_of_segment cls (snd (body r)) = part_of_segment cls r"
    by (rule ext) (simp add: part_of_segment_def make_part_status [OF body_status])
  have "collect_parts (PartGenerator r cls)
      = collect_parts \<lparr>pg_response = snd (body r), default_http_response_type = cls,
          cursor = Scanning (delimiter b) (render_segments b segs)\<rparr>"
    by (rule collect_parts_NotStarted [OF start_scan_rendered [OF semi assms(2,3)]])
       (simp add: PartGenerator_def)
  also have "\<dots> = Inr (map (part_of_segment cls (snd (body r))) segs)"
    by (rule collect_parts_rendered [OF cr wf])
  finally show ?thesis by (simp add: same)
qed


lemma scenario_well_formed: "well_formed ''B'' [json_segment]"
  by code_simp

lemma scenario_bytes:
  "render ''B'' [json_segment] =
     ''--B'' @ CRLF @ ''Content-Type: application/json'' @ CRLF @ CRLF @ ''{\"a\":1}'' @ CRLF @ ''--B--''"
  by code_simp

lemma scenario_content_type:
  "header_get [(''Content-Type'', ''application/json'')] ''content-type'' = Some ''application/json''"
  by code_simp

text \<open>Every part a generator yields is of the response type the generator was given.\<close>

lemma scan_step_class:
  "scan_step g d rest = (Inr p, g') \<Longrightarrow>
     response_class p = default_http_response_type g
     \<and> default_http_response_type g' = default_http_response_type g"
  by (auto simp: scan_step_def make_part_def split: if_splits option.splits prod.splits)

lemma start_scan_class:
  "start_scan g = Inr g' \<Longrightarrow> default_http_response_type g' = default_http_response_type g"
  by (auto simp: start_scan_def split: option.splits prod.splits if_splits)

lemma anext_class:
  "anext g = (Inr p, g') \<Longrightarrow>
     response_class p = default_http_response_type g
     \<and> default_http_response_type g' = default_http_response_type g"
  by (auto simp: anext_def split: parse_cursor.splits sum.splits
      dest!: scan_step_class start_scan_class)

lemma collect_parts_class:
  "collect_parts g = Inr ps \<Longrightarrow> p \<in> set ps \<Longrightarrow> response_class p = default_http_response_type g"
proof (induction g arbitrary: ps rule: collect_parts.induct)
  case (1 g)
  obtain r g' where step: "anext g = (r, g')" by (cases "anext g")
  show ?case
  proof (cases r)
    case (Inl e)
    with "1.prems" step show ?thesis
      by (subst (asm) collect_parts.simps) (auto split: py_exception.splits)
  next
    case (Inr q)
    with "1.prems"(1) step obtain qs where qs: "collect_parts g' = Inr qs" and ps: "ps = q # qs"
      by (subst (asm) collect_parts.simps) (auto split: sum.splits)
    from step Inr have nx: "anext g = (Inr q, g')" by simp
    from anext_class [OF nx] have cls: "response_class q = default_http_response_type g"
      and same: "default_http_response_type g' = default_http_response_type g" by simp_all
    from "1.prems"(2) ps consider "p = q" | "p \<in> set qs" by auto
    then show ?thesis
    proof cases
      case 1
      with cls show ?thesis by simp
    next
      case 2
      from "1.IH" [OF step [symmetric] Inr qs 2] same show ?thesis by simp
    qed
  qed
qed

subsection \<open>The response\<close>

text \<open>
  C1. \<open>parts\<close> raises \<open>ValueError\<close> exactly when the content-type is absent or does not
  begin with \<open>multipart/mixed\<close>. The call leaves the response as it was, so nothing has
  been read from the body, and when the check passes it returns the generator over this
  response, its cursor not started.
\<close>

theorem parts_raises_iff_not_multipart:
  "((\<exists>msg. fst (parts self) = Inl (ValueError msg)) =
      (content_type self = None \<or> \<not> startswith (the (content_type self)) ''multipart/mixed''))
   \<and> ((\<exists>e. fst (parts self) = Inl e) = (\<exists>msg. fst (parts self) = Inl (ValueError msg)))
   \<and> snd (parts self) = self
   \<and> ((\<exists>ct. content_type self = Some ct \<and> startswith ct ''multipart/mixed'') =
      (fst (parts self) = Inr (PartGenerator self AsyncHttpClientTransportResponse)))
   \<and> cursor (PartGenerator self AsyncHttpClientTransportResponse) = NotStarted"
  by (cases "content_type self") (auto simp: parts_def PartGenerator_def)

theorem parts_raises_iff_not_multipart_witness:
  "(\<exists>msg. fst (parts json_response) = Inl (ValueError msg))
   \<and> unread (internal_response (snd (parts json_response))) = ''{\"value\":[]}''
   \<and> fst (parts (multipart_response ''B'' ''--B--''))
       = Inr (PartGenerator (multipart_response ''B'' ''--B--'') AsyncHttpClientTransportResponse)
   \<and> unread (internal_response (snd (parts (multipart_response ''B'' ''--B--'')))) = ''--B--''"
  using parts_raises_iff_not_multipart [of json_response]
        parts_raises_iff_not_multipart [of "multipart_response ''B'' ''--B--''"]
  by (simp add: json_response_def multipart_response_def)

text \<open>
  C2. \<open>stream_download\<close> of the abstract response raises \<open>NotImplementedError\<close> for every
  pipeline and every options, and leaves the response, with its unread body, untouched.
\<close>

theorem stream_download_not_implemented:
  "fst (stream_download self pipeline kwargs) =
     Inl (NotImplementedError ''stream_download is not implemented.'')
   \<and> snd (stream_download self pipeline kwargs) = self"
  by (simp add: stream_download_def)

text \<open>
  C6 as the spec states it: the exit releases any open underlying resource. At a response
  whose connection is open the exit leaves it open.
\<close>

theorem aexit_releases_counterexample:
  "\<not> closed (internal_response json_response)
   \<and> \<not> closed (internal_response (snd (aexit json_response (Some (TransportError ''reset'')))))"
  by (simp add: aexit_def json_response_def)

text \<open>
  C6, amended. For every response and every exit, normal or with an exception of any
  kind leaving the block, \<open>__aexit__\<close> does not raise, returns \<open>None\<close>, which is false,
  and leaves the response as it was: it releases nothing itself. So a scope around a
  response ends as its block ends: an exception of the block reaches the caller, with
  the response as the block left it.
\<close>

theorem aexit_returns_none_unchanged:
  "fst (aexit self exc) = Inr PyNone \<and> \<not> truthy PyNone \<and> snd (aexit self exc) = self
   \<and> response_scope block self =
       (case block self of
          (Inl e, self') \<Rightarrow> (Inl e, self')
        | (Inr a, self') \<Rightarrow> (Inr (Some a), self'))"
  by (simp add: aexit_def response_scope_def async_with_def split: prod.splits sum.splits)

subsection \<open>The iteration helper\<close>

text \<open>
  C9. \<open>_iterate_response_content\<close> returns the iterator's next item when there is one;
  when the iterator raises \<open>StopIteration\<close> it raises \<open>_ResponseStopIteration\<close>; it
  never lets \<open>StopIteration\<close> out; and any other exception it raises is the one the
  iterator raised. The iterator's state advances as \<open>next\<close> left it.
\<close>

theorem iterate_response_content_spec:
  "(py_next it = (Inr item, it') \<longrightarrow> iterate_response_content py_next it = (Inr item, it'))
   \<and> (py_next it = (Inl StopIteration, it') \<longrightarrow>
        iterate_response_content py_next it = (Inl ResponseStopIteration, it'))
   \<and> fst (iterate_response_content py_next it) \<noteq> Inl StopIteration
   \<and> (fst (iterate_response_content py_next it) = Inl e \<and> e \<noteq> ResponseStopIteration \<longrightarrow>
        fst (py_next it) = Inl e)
   \<and> snd (iterate_response_content py_next it) = snd (py_next it)"
  by (auto simp: iterate_response_content_def split: prod.splits sum.splits py_exception.splits)

theorem iterate_response_content_spec_witness:
  "iterate_response_content list_iterator_next [7, 8 :: int] = (Inr 7, [8])
   \<and> iterate_response_content list_iterator_next ([] :: int list) = (Inl ResponseStopIteration, [])"
  using iterate_response_content_spec
          [of list_iterator_next "[7, 8 :: int]" 7 "[8]"]
        iterate_response_content_spec
          [of list_iterator_next "[] :: int list" _ "[]"]
  by simp

subsection \<open>The default sleep\<close>

text \<open>
  C4. For every duration \<open>d \<ge> 0\<close>, \<open>sleep d\<close> calls the runtime's delay primitive once,
  on the runtime's state, with exactly \<open>d\<close>, and returns no value: the primitive's own
  result is dropped, and only an exception of the primitive is passed on.
\<close>

theorem sleep_delegates:
  "0 \<le> d \<Longrightarrow>
     sleep asyncio_sleep self d rt =
       (case asyncio_sleep d rt of (Inl e, rt') \<Rightarrow> (Inl e, rt') | (Inr v, rt') \<Rightarrow> (Inr (), rt'))"
  by (simp add: sleep_def)

theorem sleep_delegates_witness:
  "(0::int) \<le> 3 \<and> sleep recording_sleep () (3::int) [] = (Inr (), [3])"
  using sleep_delegates [of "3::int" recording_sleep "()" "[]"]
  by (simp add: recording_sleep_def)

text \<open>
  C10. \<open>sleep\<close> checks nothing about its duration: for every duration, negative ones
  included, its outcome is the primitive's outcome at that duration with the value
  dropped, so it raises exactly when the primitive does, and the primitive's exception.
\<close>

theorem sleep_no_precondition_check:
  "snd (sleep asyncio_sleep self d rt) = snd (asyncio_sleep d rt)
   \<and> (fst (sleep asyncio_sleep self d rt) = Inl e) = (fst (asyncio_sleep d rt) = Inl e)
   \<and> (fst (sleep asyncio_sleep self d rt) = Inr ()) = (\<exists>v. fst (asyncio_sleep d rt) = Inr v)"
  by (auto simp: sleep_def split: prod.splits sum.splits)

theorem sleep_no_precondition_check_witness:
  "sleep recording_sleep () (- 1 :: int) [] = (Inr (), [- 1])"
  using sleep_no_precondition_check [of recording_sleep "()" "- 1 :: int" "[]"]
  by (simp add: recording_sleep_def sleep_def)

subsection \<open>The transport\<close>

text \<open>
  C5 as the spec states it: entering the scope of any transport calls \<open>open\<close>. A
  transport that implements the abstract methods and keeps the inherited \<open>__aenter__\<close>
  is entered without a call of \<open>open\<close>: the log of the scope around its failing \<open>send\<close>
  holds the send and the close only.
\<close>

theorem scope_calls_open_counterexample:
  "transport_scope (bare_transport :: (string list, unit, unit) transport)
      (send_method (bare_transport :: (string list, unit, unit) transport) ()) []
     = (Inl (TransportError ''connection refused''), [''send'', ''close''])
   \<and> ''open'' \<notin> set (snd (transport_scope (bare_transport :: (string list, unit, unit) transport)
        (send_method (bare_transport :: (string list, unit, unit) transport) ()) []))"
  by (simp add: transport_scope_def async_with_def aenter_def bare_transport_def failing_send_def
      exit_by_close_def log_call_def)

text \<open>
  C5, amended. For every transport whose \<open>__aenter__\<close> is its \<open>open\<close> and whose
  \<open>__aexit__\<close> is its \<open>close\<close>, a scope runs \<open>open\<close> first, then the block, then \<open>close\<close>
  on the state the block left, whether the block returned or raised; the block's
  value or exception reaches the caller only with the state \<open>close\<close> left. An
  exception of \<open>open\<close> or of \<open>close\<close> itself is the scope's exception.
\<close>

theorem scope_opens_then_closes:
  "scoped_by_open_close t \<Longrightarrow>
     transport_scope t block s =
       (case open_method t s of
          (Inl e, s1) \<Rightarrow> (Inl e, s1)
        | (Inr u, s1) \<Rightarrow>
            (case block s1 of
               (r, s2) \<Rightarrow>
                 (case close_method t s2 of
                    (Inl e', s3) \<Rightarrow> (Inl e', s3)
                  | (Inr u', s3) \<Rightarrow> (map_sum id Some r, s3))))"
  by (auto simp: scoped_by_open_close_def transport_scope_def async_with_def aenter_def
      exit_by_close_def split: prod.splits sum.splits)

theorem scope_opens_then_closes_witness:
  "scoped_by_open_close (logging_transport :: (string list, unit, unit) transport)
   \<and> transport_scope (logging_transport :: (string list, unit, unit) transport)
        (send_method (logging_transport :: (string list, unit, unit) transport) ()) []
      = (Inl (TransportError ''connection refused''), [''open'', ''send'', ''close''])"
  using scope_opens_then_closes
          [of "logging_transport :: (string list, unit, unit) transport"
              "send_method (logging_transport :: (string list, unit, unit) transport) ()" "[]"]
  by (simp add: scoped_by_open_close_def logging_transport_def failing_send_def log_call_def)

text \<open>
  C7. \<open>close\<close> on a transport that is already closed returns normally and leaves the
  transport as it was.
\<close>

theorem close_closed_is_noop:
  "lifecycle_state t = Closed \<Longrightarrow> transport_close t = (Inr (), t)"
  by (simp add: transport_close_def)

theorem close_closed_is_noop_witness:
  "lifecycle_state (snd (transport_close
       \<lparr>lifecycle_state = Opened, session = Some 1, externally_owned = False\<rparr>)) = Closed
   \<and> transport_close (snd (transport_close
       \<lparr>lifecycle_state = Opened, session = Some 1, externally_owned = False\<rparr>))
     = (Inr (), \<lparr>lifecycle_state = Closed, session = None, externally_owned = False\<rparr>)"
  using close_closed_is_noop
          [of "snd (transport_close
                 \<lparr>lifecycle_state = Opened, session = Some 1, externally_owned = False\<rparr>)"]
  by (simp add: transport_close_def)

subsection \<open>The parts of a multipart response\<close>

text \<open>
  C3. For every well-formed multipart/mixed body of N segments, \<open>parts\<close> returns the
  generator, and iterating it to the end yields exactly N parts, in order, one for each
  segment: each part has the headers of its segment, the content-type of its segment,
  and as its body the payload of its segment.
\<close>

theorem parts_yields_segments:
  assumes "well_formed b segs"
    and "content_type r = Some (''multipart/mixed; boundary='' @ b)"
    and "fst (body r) = render b segs"
  shows "fst (parts r) = Inr (PartGenerator r AsyncHttpClientTransportResponse)
    \<and> collect_parts (PartGenerator r AsyncHttpClientTransportResponse)
        = Inr (map (part_of_segment AsyncHttpClientTransportResponse r) segs)
    \<and> length (map (part_of_segment AsyncHttpClientTransportResponse r) segs) = length segs
    \<and> map headers (map (part_of_segment AsyncHttpClientTransportResponse r) segs)
        = map seg_headers segs
    \<and> map (\<lambda>p. fst (body p)) (map (part_of_segment AsyncHttpClientTransportResponse r) segs)
        = map seg_payload segs
    \<and> map content_type (map (part_of_segment AsyncHttpClientTransportResponse r) segs)
        = map (\<lambda>seg. header_get (seg_headers seg) ''content-type'') segs"
proof -
  have "fst (parts r) = Inr (PartGenerator r AsyncHttpClientTransportResponse)"
    using assms(2) by (simp add: parts_def)
  moreover note collect_parts_well_formed [OF assms]
  moreover have "map headers (map (part_of_segment AsyncHttpClientTransportResponse r) segs)
        = map seg_headers segs"
    by (simp add: part_of_segment_def make_part_def)
  moreover have "map (\<lambda>p. fst (body p)) (map (part_of_segment AsyncHttpClientTransportResponse r) segs)
        = map seg_payload segs"
    by (simp add: part_of_segment_def make_part_def body_def)
  moreover have "map content_type (map (part_of_segment AsyncHttpClientTransportResponse r) segs)
        = map (\<lambda>seg. header_get (seg_headers seg) ''content-type'') segs"
    by (simp add: part_of_segment_def make_part_def)
  ultimately show ?thesis by simp
qed

theorem parts_yields_segments_witness:
  "well_formed ''B'' [json_segment]
   \<and> unread (internal_response (multipart_response ''B'' (render ''B'' [json_segment])))
       = ''--B'' @ CRLF @ ''Content-Type: application/json'' @ CRLF @ CRLF @ ''{\"a\":1}'' @ CRLF @ ''--B--''
   \<and> collect_parts (PartGenerator (multipart_response ''B'' (render ''B'' [json_segment]))
        AsyncHttpClientTransportResponse)
       = Inr [\<lparr>response_class = AsyncHttpClientTransportResponse,
               status_code = 200,
               headers = [(''Content-Type'', ''application/json'')],
               content_type = Some ''application/json'',
               internal_response = \<lparr>unread = ''{\"a\":1}'', closed = False\<rparr>,
               content = None\<rparr>]"
proof -
  let ?r = "multipart_response ''B'' (render ''B'' [json_segment])"
  have ct: "content_type ?r = Some (''multipart/mixed; boundary='' @ ''B'')"
    by (simp add: multipart_response_def)
  have bd: "fst (body ?r) = render ''B'' [json_segment]"
    by (simp add: multipart_response_def body_def)
  from parts_yields_segments [OF scenario_well_formed ct bd]
  have "collect_parts (PartGenerator ?r AsyncHttpClientTransportResponse)
          = Inr (map (part_of_segment AsyncHttpClientTransportResponse ?r) [json_segment])"
    by simp
  then show ?thesis
    using scenario_well_formed scenario_bytes scenario_content_type
    by (simp add: part_of_segment_def make_part_def json_segment_def multipart_response_def)
qed

subsection \<open>The type of the parts\<close>

lemma resolve_part_type:
  "resolve bk AsyncHttpClientTransportResponse ''stream_download'' = Some AsyncHttpResponse"
  "resolve bk AsyncHttpClientTransportResponse ''parts'' = Some AsyncHttpResponse"
  "resolve bk AsyncHttpClientTransportResponse ''__aexit__'' = Some AsyncHttpResponse"
  "resolve bk AsyncHttpClientTransportResponse ''status_code'' = Some HttpResponseBase"
  "resolve bk AsyncHttpClientTransportResponse ''headers'' = Some HttpResponseBase"
  "resolve bk AsyncHttpClientTransportResponse ''body'' = Some HttpClientTransportResponse"
  by (simp_all add: resolve_def)

lemma hasattr_inherited:
  "hasattr bk AsyncHttpResponse name \<Longrightarrow> hasattr bk AsyncHttpClientTransportResponse name"
  by (auto simp: hasattr_def resolve_def split: if_splits)

lemma part_stream_download:
  "response_class p = AsyncHttpClientTransportResponse \<Longrightarrow>
     call_stream_download bk ext p pipeline kwargs =
       (Inl (NotImplementedError ''stream_download is not implemented.''), p)"
  by (simp add: call_stream_download_def resolve_part_type stream_download_def)

text \<open>
  C8 as the spec states it: every yielded Part supports the same operations as its
  parent, \<open>stream_download\<close> among them. The parent here is of a backend's class that
  implements \<open>stream_download\<close>, and streams its body; the one part its body yields is an
  \<open>AsyncHttpClientTransportResponse\<close>, which implements nothing, and \<open>stream_download\<close> on
  it raises \<open>NotImplementedError\<close>.
\<close>

theorem part_supports_as_parent_counterexample:
  "collect_parts (PartGenerator (multipart_response ''B'' (render ''B'' [json_segment]))
      AsyncHttpClientTransportResponse)
     = Inr [part_of_segment AsyncHttpClientTransportResponse
              (multipart_response ''B'' (render ''B'' [json_segment])) json_segment]
   \<and> fst (call_stream_download aio_attrs aio_stream_download
        (multipart_response ''B'' (render ''B'' [json_segment])) () ())
       = Inr [render ''B'' [json_segment]]
   \<and> fst (call_stream_download aio_attrs aio_stream_download
        (part_of_segment AsyncHttpClientTransportResponse
           (multipart_response ''B'' (render ''B'' [json_segment])) json_segment) () ())
       = Inl (NotImplementedError ''stream_download is not implemented.'')"
proof -
  let ?r = "multipart_response ''B'' (render ''B'' [json_segment])"
  have ct: "content_type ?r = Some (''multipart/mixed; boundary='' @ ''B'')"
    by (simp add: multipart_response_def)
  have bd: "fst (body ?r) = render ''B'' [json_segment]"
    by (simp add: multipart_response_def body_def)
  have "collect_parts (PartGenerator ?r AsyncHttpClientTransportResponse)
      = Inr [part_of_segment AsyncHttpClientTransportResponse ?r json_segment]"
    using collect_parts_well_formed [OF scenario_well_formed ct bd] by simp
  moreover have "fst (call_stream_download aio_attrs aio_stream_download ?r () ())
      = Inr [render ''B'' [json_segment]]"
    using bd
    by (simp add: call_stream_download_def resolve_def aio_stream_download_def
        multipart_response_def)
  moreover have "fst (call_stream_download aio_attrs aio_stream_download
        (part_of_segment AsyncHttpClientTransportResponse ?r json_segment) () ())
      = Inl (NotImplementedError ''stream_download is not implemented.'')"
    by (simp add: part_stream_download part_of_segment_def make_part_def)
  ultimately show ?thesis by simp
qed

text \<open>
  C8, amended. The generator \<open>parts\<close> returns is built with
  \<open>AsyncHttpClientTransportResponse\<close> as its response type, and every part it yields is
  of that type. That type derives from \<open>AsyncHttpResponse\<close>, so a part has every
  attribute an \<open>AsyncHttpResponse\<close> has, whatever a backend defines; but it defines
  nothing itself. On a part, \<open>stream_download\<close>, \<open>parts\<close> and \<open>__aexit__\<close> are those of
  \<open>AsyncHttpResponse\<close>, and status, headers and body access those of the classes of
  \<open>_base.py\<close>: \<open>stream_download\<close> on a part raises \<open>NotImplementedError\<close> and leaves the
  part as it was, whatever the parent's class implements.
\<close>

theorem parts_yield_base_typed_parts:
  "(fst (parts self) = Inr g \<longrightarrow>
      default_http_response_type g = AsyncHttpClientTransportResponse \<and> pg_response g = self)
   \<and> (fst (parts self) = Inr g \<and> collect_parts g = Inr ps \<and> p \<in> set ps \<longrightarrow>
      response_class p = AsyncHttpClientTransportResponse
      \<and> call_stream_download backend_attrs external p pipeline kwargs =
          (Inl (NotImplementedError ''stream_download is not implemented.''), p))
   \<and> set (mro AsyncHttpResponse) \<subseteq> set (mro AsyncHttpClientTransportResponse)
   \<and> (hasattr backend_attrs AsyncHttpResponse name \<longrightarrow>
      hasattr backend_attrs AsyncHttpClientTransportResponse name)
   \<and> resolve backend_attrs AsyncHttpClientTransportResponse ''stream_download'' = Some AsyncHttpResponse
   \<and> resolve backend_attrs AsyncHttpClientTransportResponse ''parts'' = Some AsyncHttpResponse
   \<and> resolve backend_attrs AsyncHttpClientTransportResponse ''__aexit__'' = Some AsyncHttpResponse
   \<and> resolve backend_attrs AsyncHttpClientTransportResponse ''status_code'' = Some HttpResponseBase
   \<and> resolve backend_attrs AsyncHttpClientTransportResponse ''headers'' = Some HttpResponseBase
   \<and> resolve backend_attrs AsyncHttpClientTransportResponse ''body'' = Some HttpClientTransportResponse"
proof -
  have built: "default_http_response_type g = AsyncHttpClientTransportResponse \<and> pg_response g = self"
    if "fst (parts self) = Inr g"
    using that
    by (cases "content_type self") (auto simp: parts_def PartGenerator_def split: if_splits)
  have yielded: "response_class p = AsyncHttpClientTransportResponse"
    if "fst (parts self) = Inr g" "collect_parts g = Inr ps" "p \<in> set ps"
    using collect_parts_class [OF that(2,3)] built [OF that(1)] by simp
  show ?thesis
    using built yielded part_stream_download [of p backend_attrs external pipeline kwargs]
      hasattr_inherited [of backend_attrs name]
    by (simp add: resolve_part_type)
qed

theorem parts_yield_base_typed_parts_witness:
  "fst (parts (multipart_response ''B'' (render ''B'' [json_segment])))
     = Inr (PartGenerator (multipart_response ''B'' (render ''B'' [json_segment]))
          AsyncHttpClientTransportResponse)
   \<and> response_class (part_of_segment AsyncHttpClientTransportResponse
        (multipart_response ''B'' (render ''B'' [json_segment])) json_segment)
       = AsyncHttpClientTransportResponse
   \<and> call_stream_download aio_attrs aio_stream_download
        (part_of_segment AsyncHttpClientTransportResponse
           (multipart_response ''B'' (render ''B'' [json_segment])) json_segment) () ()
       = (Inl (NotImplementedError ''stream_download is not implemented.''),
          part_of_segment AsyncHttpClientTransportResponse
            (multipart_response ''B'' (render ''B'' [json_segment])) json_segment)
   \<and> hasattr aio_attrs AsyncHttpResponse ''status_code''
   \<and> hasattr aio_attrs AsyncHttpClientTransportResponse ''status_code''"
proof -
  let ?r = "multipart_response ''B'' (render ''B'' [json_segment])"
  let ?g = "PartGenerator ?r AsyncHttpClientTransportResponse"
  let ?p = "part_of_segment AsyncHttpClientTransportResponse ?r json_segment"
  have ct: "content_type ?r = Some (''multipart/mixed; boundary='' @ ''B'')"
    by (simp add: multipart_response_def)
  have bd: "fst (body ?r) = render ''B'' [json_segment]"
    by (simp add: multipart_response_def body_def)
  have g: "fst (parts ?r) = Inr ?g"
    by (simp add: parts_def multipart_response_def)
  have ps: "collect_parts ?g = Inr [?p]"
    using collect_parts_well_formed [OF scenario_well_formed ct bd] by simp
  have base: "hasattr aio_attrs AsyncHttpResponse ''status_code''"
    by (simp add: hasattr_def resolve_def)
  from parts_yield_base_typed_parts
         [of ?r ?g "[?p]" ?p aio_attrs aio_stream_download "()" "()" "''status_code''"]
       g ps base
  show ?thesis by simp
qed

end
